theory Spec2Isabelle
  imports Main
begin

section \<open>JavaScript values\<close>

text \<open>
  The values the request object handles are JSON-like JavaScript values. Numbers are
  restricted to integers (no fractions, no NaN). An object is the list of its own
  enumerable properties in enumeration order (the order of \<^verbatim>\<open>Object.keys\<close>); its keys
  are pairwise distinct. Properties inherited from \<^verbatim>\<open>Object.prototype\<close> are not part
  of the model.
\<close>

datatype json =
    JUndefined
  | JNull
  | JBool bool
  | JNum int
  | JStr string
  | JArr "json list"
  | JObj "(string \<times> json) list"

datatype js_error = TypeError

text \<open>JavaScript truthiness, as tested by \<^verbatim>\<open>if (x)\<close> and by \<^verbatim>\<open>x || y\<close>.\<close>

fun truthy :: "json \<Rightarrow> bool" where
  "truthy JUndefined = False"
| "truthy JNull = False"
| "truthy (JBool b) = b"
| "truthy (JNum n) = (n \<noteq> 0)"
| "truthy (JStr s) = (s \<noteq> [])"
| "truthy (JArr xs) = True"
| "truthy (JObj kvs) = True"

text \<open>\<^verbatim>\<open>a || b\<close> on values, and on an optional string (absent, or a string that may be empty).\<close>

definition jor :: "json \<Rightarrow> json \<Rightarrow> json" where
  "jor a b = (if truthy a then a else b)"

definition str_or :: "string option \<Rightarrow> string \<Rightarrow> string" where
  "str_or a b = (case a of None \<Rightarrow> b | Some s \<Rightarrow> if s = [] then b else s)"

text \<open>\<^verbatim>\<open>Array.isArray\<close>.\<close>

fun isArray :: "json \<Rightarrow> bool" where
  "isArray (JArr xs) = True"
| "isArray v = False"

text \<open>Decimal rendering of an array index, as \<^verbatim>\<open>Object.keys\<close> produces it.\<close>

definition digit :: "nat \<Rightarrow> char" where
  "digit d = ''0123456789'' ! d"

function show_nat :: "nat \<Rightarrow> string" where
  "show_nat n = (if n < 10 then [digit n] else show_nat (n div 10) @ [digit (n mod 10)])"
  by pat_completeness auto
termination
  by (relation "measure (\<lambda>n. n)") auto

text \<open>
  \<^verbatim>\<open>Object.keys(v)\<close>: the indices of an array or a string, the own keys of an object,
  nothing for a number or a boolean, and a TypeError for undefined and null.
\<close>

fun object_keys :: "json \<Rightarrow> js_error + string list" where
  "object_keys JUndefined = Inl TypeError"
| "object_keys JNull = Inl TypeError"
| "object_keys (JBool b) = Inr []"
| "object_keys (JNum n) = Inr []"
| "object_keys (JStr s) = Inr (map show_nat [0..<length s])"
| "object_keys (JArr xs) = Inr (map show_nat [0..<length xs])"
| "object_keys (JObj kvs) = Inr (map fst kvs)"

text \<open>The element of a list stored under the property name \<open>k\<close>, when \<open>k\<close> is one of its indices.\<close>

definition at_index :: "'a list \<Rightarrow> string \<Rightarrow> 'a option" where
  "at_index xs k =
     (case filter (\<lambda>i. show_nat i = k) [0..<length xs] of
        [] \<Rightarrow> None
      | i # _ \<Rightarrow> Some (xs ! i))"

text \<open>
  The property read \<^verbatim>\<open>v[k]\<close>: a TypeError on undefined and null, the own property of an
  object (undefined when there is none), an element or the length of an array or string.
\<close>

fun get_prop :: "json \<Rightarrow> string \<Rightarrow> js_error + json" where
  "get_prop JUndefined k = Inl TypeError"
| "get_prop JNull k = Inl TypeError"
| "get_prop (JBool b) k = Inr JUndefined"
| "get_prop (JNum n) k = Inr JUndefined"
| "get_prop (JStr s) k =
     (case at_index s k of
        Some c \<Rightarrow> Inr (JStr [c])
      | None \<Rightarrow> Inr (if k = ''length'' then JNum (int (length s)) else JUndefined))"
| "get_prop (JArr xs) k =
     (case at_index xs k of
        Some x \<Rightarrow> Inr x
      | None \<Rightarrow> Inr (if k = ''length'' then JNum (int (length xs)) else JUndefined))"
| "get_prop (JObj kvs) k =
     (case map_of kvs k of Some x \<Rightarrow> Inr x | None \<Rightarrow> Inr JUndefined)"

text \<open>\<^verbatim>\<open>xs.join(sep)\<close> on strings.\<close>

fun join :: "string \<Rightarrow> string list \<Rightarrow> string" where
  "join sep [] = []"
| "join sep [x] = x"
| "join sep (x # y # ys) = x @ sep @ join sep (y # ys)"

text \<open>\<^verbatim>\<open>hay.indexOf(needle)\<close>: the first position of \<open>needle\<close> in \<open>hay\<close>, or \<open>-1\<close>.\<close>

fun indexOf_from :: "string \<Rightarrow> string \<Rightarrow> int \<Rightarrow> int" where
  "indexOf_from [] needle i = (if needle = [] then i else - 1)"
| "indexOf_from (c # cs) needle i =
     (if take (length needle) (c # cs) = needle then i else indexOf_from cs needle (i + 1))"

definition indexOf :: "string \<Rightarrow> string \<Rightarrow> int" where
  "indexOf hay needle = indexOf_from hay needle 0"

section \<open>The request object and the shared state\<close>

text \<open>
  The raw job fields passed to the constructor. \<open>None\<close> is an absent (or null) field;
  the identifiers are strings, as the source documents them.
\<close>

record request =
  req_jobID :: "string option"
  req_tenantID :: "string option"
  req_user :: json
  req_data :: json
  req_param :: json

text \<open>The service controller: its key, its configuration, its connection table and its models.\<close>

record controller =
  ctl_key :: "string option"
  ctl_config :: json
  ctl_connections :: json
  ctl_models :: json

text \<open>What \<^verbatim>\<open>_DBConn\<close> and \<^verbatim>\<open>_Model\<close> refer to: the required module, or a mock put there by a test.\<close>

datatype dbconn_ref = DBConn | MockDBConn nat

datatype model_ref = Model | MockModel nat

text \<open>The fields of an \<^verbatim>\<open>ABRequestService\<close> instance (\<open>priv_x\<close> stands for \<^verbatim>\<open>_x\<close>).\<close>

record ctx =
  jobID :: string
  priv_tenantID :: string
  priv_user :: json
  serviceKey :: string
  data :: json
  controller :: controller
  priv_DBConn :: dbconn_ref
  priv_Model :: model_ref
  debug :: bool

text \<open>
  An error of the storage driver: what \<^verbatim>\<open>error.toString()\<close> returns, and its property
  \<^verbatim>\<open>sql\<close> once \<^verbatim>\<open>query\<close> has set it. An outcome is the triple of arguments of the
  driver's callback (\<open>qfields\<close> stands for \<^verbatim>\<open>fields\<close>); no error is \<open>None\<close>.
\<close>

record db_error =
  toString :: string
  sql :: "string option"

record outcome =
  error :: "db_error option"
  results :: json
  qfields :: json

text \<open>
  What the collaborators observe: a line of \<^verbatim>\<open>req.log\<close> keeps the job id and the logged
  arguments (their rendering by \<^verbatim>\<open>JSON.stringify\<close> is not modelled); an alert is a call
  received by the notifier of the instance \<open>via\<close>; a performance event is a mark or a
  measure under a key.
\<close>

datatype console_line =
    LogLine string "json list"
  | ConsoleError db_error
  | ConsoleText string

record alert =
  via :: nat
  domain :: string
  alert_error :: json
  info :: json

datatype perf_event = Mark string | Measure string

text \<open>
  The state shared by all instances. \<open>heap\<close> holds the instances, an instance's address
  being its index. The constructor stores its closures as properties of the functions
  \<^verbatim>\<open>notify\<close> and \<^verbatim>\<open>broadcast\<close>, which every instance inherits from the one prototype:
  each of the five slots holds the \<^verbatim>\<open>this\<close> captured by the closure stored there last.
\<close>

record world =
  heap :: "ctx list"
  notify_builder :: "nat option"
  notify_developer :: "nat option"
  broadcast_dcCreate :: "nat option"
  broadcast_dcDelete :: "nat option"
  broadcast_dcUpdate :: "nat option"
  console :: "console_line list"
  alerts :: "alert list"
  wire :: "json list"
  perf :: "perf_event list"
  db_calls :: "(string \<times> json list) list"

definition deref :: "world \<Rightarrow> nat \<Rightarrow> ctx option" where
  "deref w a = (if a < length (heap w) then Some (heap w ! a) else None)"

definition empty_world :: world where
  "empty_world =
     \<lparr>heap = [], notify_builder = None, notify_developer = None,
      broadcast_dcCreate = None, broadcast_dcDelete = None, broadcast_dcUpdate = None,
      console = [], alerts = [], wire = [], perf = [], db_calls = []\<rparr>"

text \<open>
  The constructor (reqService.js, lines 18 to 211): it fills the fields of the new instance
  and then overwrites the five closures of the prototype's functions with closures over
  the new instance. The collaborators it builds over the instance (performance, notifier,
  requester, validator) have no state of their own here: what they do is recorded in the
  shared state.
\<close>

definition ABRequestService :: "request \<Rightarrow> controller \<Rightarrow> world \<Rightarrow> nat \<times> world" where
  "ABRequestService req ctl w =
     (let jid = str_or (req_jobID req) ''??'';
          this = \<lparr>jobID = jid,
                  priv_tenantID = str_or (req_tenantID req) ''??'',
                  priv_user = jor (req_user req) JNull,
                  serviceKey = str_or (ctl_key ctl) jid,
                  data = jor (req_data req) (req_param req),
                  controller = ctl,
                  priv_DBConn = DBConn,
                  priv_Model = Model,
                  debug = False\<rparr>;
          a = length (heap w)
      in (a, w\<lparr>heap := heap w @ [this],
                notify_builder := Some a, notify_developer := Some a,
                broadcast_dcCreate := Some a, broadcast_dcDelete := Some a,
                broadcast_dcUpdate := Some a\<rparr>))"

text \<open>\<^verbatim>\<open>req.log(...allArgs)\<close>.\<close>

definition log :: "ctx \<Rightarrow> json list \<Rightarrow> world \<Rightarrow> world" where
  "log this allArgs w = w\<lparr>console := console w @ [LogLine (jobID this) allArgs]\<rparr>"

text \<open>
  \<^verbatim>\<open>req.notify(domain, error, info)\<close> of the instance at address \<open>n\<close>: the call is handed
  to that instance's notifier.
\<close>

definition notify :: "nat \<Rightarrow> string \<Rightarrow> json \<Rightarrow> json \<Rightarrow> world \<Rightarrow> world" where
  "notify n d err i w =
     w\<lparr>alerts := alerts w @ [\<lparr>via = n, domain = d, alert_error = err, info = i\<rparr>]\<rparr>"

text \<open>\<^verbatim>\<open>req.performance.mark(key)\<close> and \<^verbatim>\<open>req.performance.measure(key)\<close>.\<close>

definition performance_mark :: "string \<Rightarrow> world \<Rightarrow> world" where
  "performance_mark k w = w\<lparr>perf := perf w @ [Mark k]\<rparr>"

definition performance_measure :: "string \<Rightarrow> world \<Rightarrow> world" where
  "performance_measure k w = w\<lparr>perf := perf w @ [Measure k]\<rparr>"

section \<open>Accessors\<close>

text \<open>\<^verbatim>\<open>socketKey(key)\<close> (reqService.js, line 517).\<close>

definition socketKey :: "ctx \<Rightarrow> string \<Rightarrow> string" where
  "socketKey this k = priv_tenantID this @ ''-'' @ k"

text \<open>\<^verbatim>\<open>param(key)\<close> (line 359) and \<^verbatim>\<open>params(ignoreList)\<close> (line 367).\<close>

definition param :: "ctx \<Rightarrow> string \<Rightarrow> js_error + json" where
  "param this k = get_prop (data this) k"

fun params_loop :: "ctx \<Rightarrow> string list \<Rightarrow> string list \<Rightarrow> (string \<times> json) list
    \<Rightarrow> js_error + (string \<times> json) list" where
  "params_loop this ignoreList [] result = Inr result"
| "params_loop this ignoreList (k # ks) result =
     (if k \<notin> set ignoreList then
        (case param this k of
           Inl e \<Rightarrow> Inl e
         | Inr v \<Rightarrow> params_loop this ignoreList ks (result @ [(k, v)]))
      else params_loop this ignoreList ks result)"

definition params :: "ctx \<Rightarrow> string list \<Rightarrow> js_error + json" where
  "params this ignoreList =
     (case object_keys (data this) of
        Inl e \<Rightarrow> Inl e
      | Inr ks \<Rightarrow>
          (case params_loop this ignoreList ks [] of
             Inl e \<Rightarrow> Inl e
           | Inr result \<Rightarrow> Inr (JObj result)))"

section \<open>Connection routing\<close>

text \<open>\<^verbatim>\<open>configDB()\<close> (reqService.js, line 256).\<close>

definition configDB :: "ctx \<Rightarrow> world \<Rightarrow> (js_error + json) \<times> world" where
  "configDB this w =
     (let defs = ctl_connections (controller this) in
      if priv_tenantID this \<noteq> ''??'' then
        (case get_prop defs ''appbuilder'' of
           Inl e \<Rightarrow> (Inl e, w)
         | Inr d \<Rightarrow>
             if truthy d then (Inr d, w)
             else (Inr JNull,
                   log this [JStr ''Error: No 'appbuilder' connection defined:'', defs] w))
      else
        (case get_prop defs ''site'' of
           Inl e \<Rightarrow> (Inl e, w)
         | Inr d \<Rightarrow>
             if truthy d then (Inr d, w)
             else (Inr JNull,
                   log this [JStr ''Error: No 'site' connection defined:'', defs] w)))"

section \<open>The condition builder\<close>

record where_result =
  condition :: string
  cond_values :: "json list"

text \<open>
  \<^verbatim>\<open>queryWhereCondition(cond)\<close> (reqService.js, line 470). \<open>where_fields\<close> is the
  \<^verbatim>\<open>forEach\<close> over the keys, \<open>ps\<close> being the array \<^verbatim>\<open>params\<close>: the value is pushed
  first and popped again for an empty array.
\<close>

fun where_fields :: "json \<Rightarrow> string list \<Rightarrow> json list \<times> string list
    \<Rightarrow> js_error + json list \<times> string list" where
  "where_fields cond [] acc = Inr acc"
| "where_fields cond (k # ks) (vals, ps) =
     (case get_prop cond k of
        Inl e \<Rightarrow> Inl e
      | Inr v \<Rightarrow>
          (let vals1 = vals @ [v] in
           case v of
             JArr xs \<Rightarrow>
               if length xs > 0 then where_fields cond ks (vals1, ps @ [k @ '' IN ( ? )''])
               else where_fields cond ks (butlast vals1, ps @ ['' 1 = 0 ''])
           | _ \<Rightarrow> where_fields cond ks (vals1, ps @ [k @ '' = ?''])))"

definition queryWhereCondition :: "json \<Rightarrow> js_error + where_result" where
  "queryWhereCondition cond =
     (if truthy cond then
        (case object_keys cond of
           Inl e \<Rightarrow> Inl e
         | Inr ks \<Rightarrow>
             (case where_fields cond ks ([], []) of
                Inl e \<Rightarrow> Inl e
              | Inr (vals, ps) \<Rightarrow>
                  Inr \<lparr>condition = join '' AND '' ps, cond_values = vals\<rparr>))
      else Inr \<lparr>condition = [], cond_values = []\<rparr>)"

section \<open>Service requests and broadcasts\<close>

text \<open>\<^verbatim>\<open>ABServiceCote.toParam(key, data)\<close> (reqServiceCote.js, line 18), \<open>req\<close> being \<^verbatim>\<open>this.req\<close>.\<close>

definition toParam :: "ctx \<Rightarrow> string \<Rightarrow> json \<Rightarrow> json" where
  "toParam req k d =
     (let d1 = jor d (JObj []) in
      JObj [(''type'', JStr k),
            (''param'', JObj [(''jobID'', JStr (jobID req)),
                              (''tenantID'', JStr (priv_tenantID req)),
                              (''user'', priv_user req),
                              (''data'', d1)])])"

text \<open>The RPC transport: the reply \<open>(error, result)\<close> to an envelope.\<close>

type_synonym transport = "json \<Rightarrow> json \<times> json"

text \<open>
  Modelled from the spec: \<^verbatim>\<open>request(key, data, cb)\<close> of the requester object
  (serviceRequest.js, built over the instance by the constructor) is not among the
  sources. By section 4.5 of the specification it wraps the payload into the standard
  envelope, which \<open>toParam\<close> builds, sends it over the RPC transport and invokes
  \<^verbatim>\<open>cb(error, result)\<close> on reply. The function returns the arguments of \<^verbatim>\<open>cb\<close>.
\<close>

definition request :: "transport \<Rightarrow> ctx \<Rightarrow> string \<Rightarrow> json \<Rightarrow> world
    \<Rightarrow> (json \<times> json) \<times> world" where
  "request tr req k d w =
     (let envelope = toParam req k d in (tr envelope, w\<lparr>wire := wire w @ [envelope]\<rparr>))"

text \<open>\<^verbatim>\<open>serviceRequest(key, data, cb)\<close> (reqService.js, line 506).\<close>

definition serviceRequest :: "transport \<Rightarrow> ctx \<Rightarrow> string \<Rightarrow> json \<Rightarrow> world
    \<Rightarrow> (json \<times> json) \<times> world" where
  "serviceRequest tr this k d w = request tr this k d w"

text \<open>
  \<^verbatim>\<open>broadcast(packets, cb)\<close> (reqService.js, line 231). \<open>cb\<close> tells whether a callback
  was passed; the result holds the arguments it was invoked with. The alert goes through
  \<^verbatim>\<open>this.notify.developer\<close>, the closure stored on the shared function \<^verbatim>\<open>notify\<close>.
\<close>

definition broadcast :: "transport \<Rightarrow> ctx \<Rightarrow> json \<Rightarrow> bool \<Rightarrow> world
    \<Rightarrow> js_error + (json \<times> json) option \<times> world" where
  "broadcast tr this packets cb w =
     (case serviceRequest tr this ''api.broadcast'' packets w of
        ((err, res), w1) \<Rightarrow>
          if truthy err then
            (let w2 = log this [JStr ''Error with api.broadcast'', err] w1 in
             case notify_developer w2 of
               None \<Rightarrow> Inl TypeError
             | Some n \<Rightarrow>
                 (let w3 = notify n ''developer'' err
                             (JObj [(''tenantID'', JStr (priv_tenantID this)),
                                    (''jobID'', JStr (jobID this))]) w2
                  in Inr (if cb then Some (err, res) else None, w3)))
          else Inr (if cb then Some (err, res) else None, w1))"

text \<open>
  The result of a \<^verbatim>\<open>broadcast.dcX\<close> call: the argument the legacy callback was invoked
  with, if it was, and the state of the returned promise.
\<close>

datatype promise_state = Pending | Resolved | Rejected json

record dc_result =
  legacy_cb :: "json option"
  promise :: promise_state

text \<open>
  The body shared, up to the default performance key and the event name, by the three
  closures of the constructor (reqService.js, lines 79, 127 and 176); \<open>this\<close> is the
  instance the closure captured.
\<close>

definition dc_closure :: "string \<Rightarrow> string \<Rightarrow> transport \<Rightarrow> ctx \<Rightarrow> string \<Rightarrow> json
    \<Rightarrow> string option \<Rightarrow> bool \<Rightarrow> world \<Rightarrow> js_error + dc_result \<times> world" where
  "dc_closure default_key event tr this ident item k cb w =
     (let k1 = str_or k (default_key @ ident);
          w1 = performance_mark k1 w;
          packets = JArr [JObj [(''room'', JStr (socketKey this ident)),
                                (''event'', JStr event),
                                (''data'', JObj [(''objectId'', JStr ident),
                                                 (''data'', item)])]]
      in case broadcast tr this packets True w1 of
           Inl e \<Rightarrow> Inl e
         | Inr (None, w2) \<Rightarrow> Inr (\<lparr>legacy_cb = None, promise = Pending\<rparr>, w2)
         | Inr (Some (err, res), w2) \<Rightarrow>
             Inr (\<lparr>legacy_cb = (if cb then Some err else None),
                   promise = (if truthy err then Rejected err else Resolved)\<rparr>,
                  performance_measure k1 w2))"

definition dcCreate_closure :: "transport \<Rightarrow> ctx \<Rightarrow> string \<Rightarrow> json \<Rightarrow> string option
    \<Rightarrow> bool \<Rightarrow> world \<Rightarrow> js_error + dc_result \<times> world" where
  "dcCreate_closure = dc_closure ''broadcast.dc.create.'' ''ab.datacollection.create''"

definition dcDelete_closure :: "transport \<Rightarrow> ctx \<Rightarrow> string \<Rightarrow> json \<Rightarrow> string option
    \<Rightarrow> bool \<Rightarrow> world \<Rightarrow> js_error + dc_result \<times> world" where
  "dcDelete_closure = dc_closure ''broadcast.dc.delete.'' ''ab.datacollection.delete''"

definition dcUpdate_closure :: "transport \<Rightarrow> ctx \<Rightarrow> string \<Rightarrow> json \<Rightarrow> string option
    \<Rightarrow> bool \<Rightarrow> world \<Rightarrow> js_error + dc_result \<times> world" where
  "dcUpdate_closure = dc_closure ''broadcast.dc.update.'' ''ab.datacollection.update''"

text \<open>
  The call \<^verbatim>\<open>req.broadcast.dcCreate(id, newItem, key, cb)\<close> on the instance at address
  \<open>a\<close>: \<^verbatim>\<open>req.broadcast\<close> is the function of the prototype, and its property is the
  closure the slot holds, run with the \<^verbatim>\<open>this\<close> it captured. Likewise for the other two.
\<close>

definition call_closure :: "(world \<Rightarrow> nat option) \<Rightarrow> (ctx \<Rightarrow> world \<Rightarrow> js_error + dc_result \<times> world)
    \<Rightarrow> nat \<Rightarrow> world \<Rightarrow> js_error + dc_result \<times> world" where
  "call_closure slot body a w =
     (case deref w a of
        None \<Rightarrow> Inl TypeError
      | Some req \<Rightarrow>
          (case slot w of
             None \<Rightarrow> Inl TypeError
           | Some b \<Rightarrow>
               (case deref w b of
                  None \<Rightarrow> Inl TypeError
                | Some this \<Rightarrow> body this w)))"

definition dcCreate :: "transport \<Rightarrow> nat \<Rightarrow> string \<Rightarrow> json \<Rightarrow> string option \<Rightarrow> bool
    \<Rightarrow> world \<Rightarrow> js_error + dc_result \<times> world" where
  "dcCreate tr a ident item k cb w =
     call_closure broadcast_dcCreate (\<lambda>this. dcCreate_closure tr this ident item k cb) a w"

definition dcDelete :: "transport \<Rightarrow> nat \<Rightarrow> string \<Rightarrow> json \<Rightarrow> string option \<Rightarrow> bool
    \<Rightarrow> world \<Rightarrow> js_error + dc_result \<times> world" where
  "dcDelete tr a ident item k cb w =
     call_closure broadcast_dcDelete (\<lambda>this. dcDelete_closure tr this ident item k cb) a w"

definition dcUpdate :: "transport \<Rightarrow> nat \<Rightarrow> string \<Rightarrow> json \<Rightarrow> string option \<Rightarrow> bool
    \<Rightarrow> world \<Rightarrow> js_error + dc_result \<times> world" where
  "dcUpdate tr a ident item k cb w =
     call_closure broadcast_dcUpdate (\<lambda>this. dcUpdate_closure tr this ident item k cb) a w"

section \<open>The factory request\<close>

text \<open>
  \<^verbatim>\<open>toABFactoryReq()\<close> (reqService.js, line 553): a new instance from a request that has
  a job id and a tenant id only, then the two bindings are assigned.
\<close>

definition toABFactoryReq :: "ctx \<Rightarrow> world \<Rightarrow> nat \<times> world" where
  "toABFactoryReq this w =
     (case ABRequestService
             \<lparr>req_jobID = Some (''ABFactory('' @ priv_tenantID this @ '')''),
              req_tenantID = Some (priv_tenantID this),
              req_user = JUndefined, req_data = JUndefined, req_param = JUndefined\<rparr>
             (controller this) w of
        (b, w1) \<Rightarrow>
          (b, w1\<lparr>heap := (heap w1)[b := (heap w1 ! b)\<lparr>priv_DBConn := priv_DBConn this,
                                                        priv_Model := priv_Model this\<rparr>]\<rparr>))"

section \<open>Queries\<close>

text \<open>
  The storage driver: its answer to a query is the text \<^verbatim>\<open>q.sql\<close> and the arguments of the
  callback. It depends on the queries issued so far on the connection, the last one being
  the query answered.
\<close>

type_synonym db_driver = "(string \<times> json list) list \<Rightarrow> string \<times> outcome"

definition is_transient :: "db_error \<Rightarrow> bool" where
  "is_transient e = (indexOf (toString e) ''PROTOCOL_ENQUEUE_AFTER_FATAL_ERROR'' > - 1)"

text \<open>
  \<^verbatim>\<open>query(query, values, cb, numRetries, prev)\<close> (reqService.js, line 393). The result is
  what \<^verbatim>\<open>cb\<close> is invoked with; reading \<^verbatim>\<open>prev.error\<close> when \<^verbatim>\<open>prev\<close> is null is a
  TypeError.
\<close>

function query :: "db_driver \<Rightarrow> ctx \<Rightarrow> string \<Rightarrow> json list \<Rightarrow> nat \<Rightarrow> outcome option
    \<Rightarrow> world \<Rightarrow> (js_error + outcome) \<times> world" where
  "query db this q vals numRetries prev w =
     (if numRetries > 3 then
        (case prev of
           None \<Rightarrow> (Inl TypeError, w)
         | Some p \<Rightarrow> (Inr \<lparr>error = error p, results = results p, qfields = qfields p\<rparr>, w))
      else
        (let w1 = w\<lparr>db_calls := db_calls w @ [(q, vals)]\<rparr>;
             q_sql = fst (db (db_calls w1));
             out = snd (db (db_calls w1));
             w2 = (if debug this then log this [JStr ''req.query():'', JStr q_sql] w1 else w1)
         in case error out of
              None \<Rightarrow> (Inr out, w2)
            | Some e \<Rightarrow>
                if is_transient e then
                  query db this q vals (numRetries + 1) (Some out)
                    (w2\<lparr>console := console w2 @ [ConsoleError e, ConsoleText ''trying again'']\<rparr>)
                else (Inr (out\<lparr>error := Some (e\<lparr>sql := Some q_sql\<rparr>)\<rparr>), w2)))"
  by pat_completeness auto
termination
  by (relation "measure (\<lambda>(db, this, q, vals, numRetries, prev, w). 4 - numRetries)") auto

declare query.simps [simp del]

section \<open>The condition builder, field by field\<close>

text \<open>
  What one field contributes in \<open>where_fields\<close>: the clause pushed to \<^verbatim>\<open>params\<close> and the
  values left in \<^verbatim>\<open>values\<close> once the field is done. \<open>own kvs k\<close> is the value read by
  \<^verbatim>\<open>cond[key]\<close> on an object.
\<close>

definition field_clause :: "string \<Rightarrow> json \<Rightarrow> string" where
  "field_clause k v =
     (case v of
        JArr xs \<Rightarrow> if length xs > 0 then k @ '' IN ( ? )'' else '' 1 = 0 ''
      | _ \<Rightarrow> k @ '' = ?'')"

definition field_values :: "json \<Rightarrow> json list" where
  "field_values v = (case v of JArr xs \<Rightarrow> if length xs > 0 then [v] else [] | _ \<Rightarrow> [v])"

definition own :: "(string \<times> json) list \<Rightarrow> string \<Rightarrow> json" where
  "own kvs k = (case map_of kvs k of Some x \<Rightarrow> x | None \<Rightarrow> JUndefined)"

section \<open>Sample values\<close>

text \<open>
  Concrete controllers, requests and instances for the closed theorems below:
  \<open>two_tenants\<close> is the state after the constructor ran for a request of tenant \<open>t1\<close>
  and then for a request of tenant \<open>t2\<close>; \<open>failing_driver\<close> answers every query with
  the transient error and reports, as results, how many queries it has seen.
\<close>

definition sample_controller :: "json \<Rightarrow> controller" where
  "sample_controller conns =
     \<lparr>ctl_key = Some ''svc'', ctl_config = JObj [], ctl_connections = conns, ctl_models = JObj []\<rparr>"

definition sample_request :: "string \<Rightarrow> string option \<Rightarrow> request" where
  "sample_request jid tid =
     \<lparr>req_jobID = Some jid, req_tenantID = tid, req_user = JUndefined,
      req_data = JObj [(''id'', JNum 7)], req_param = JUndefined\<rparr>"

definition sample_ctx :: "string \<Rightarrow> string \<Rightarrow> json \<Rightarrow> ctx" where
  "sample_ctx jid tid conns =
     \<lparr>jobID = jid, priv_tenantID = tid, priv_user = JNull, serviceKey = ''svc'',
      data = JObj [(''id'', JNum 7)], controller = sample_controller conns,
      priv_DBConn = DBConn, priv_Model = Model, debug = False\<rparr>"

definition two_tenants :: world where
  "two_tenants =
     snd (ABRequestService (sample_request ''j2'' (Some ''t2'')) (sample_controller (JObj []))
       (snd (ABRequestService (sample_request ''j1'' (Some ''t1'')) (sample_controller (JObj []))
          empty_world)))"

definition failing_driver :: db_driver where
  "failing_driver h =
     (''SELECT 1'',
      \<lparr>error = Some \<lparr>toString = ''Error: PROTOCOL_ENQUEUE_AFTER_FATAL_ERROR'', sql = None\<rparr>,
       results = JNum (int (length h)), qfields = JNull\<rparr>)"

definition sample_connections :: json where
  "sample_connections =
     JObj [(''appbuilder'', JObj [(''database'', JStr ''appbuilder'')]),
           (''site'', JObj [(''database'', JStr ''site'')])]"

section \<open>The condition builder: clauses and values\<close>

lemma get_prop_obj: "get_prop (JObj kvs) k = Inr (own kvs k)"
  by (simp add: own_def split: option.splits)

lemma where_fields_step:
  "where_fields (JObj kvs) (k # ks) (vals, ps) =
     where_fields (JObj kvs) ks
       (vals @ field_values (own kvs k), ps @ [field_clause k (own kvs k)])"
  by (cases "own kvs k")
    (simp_all add: get_prop_obj field_values_def field_clause_def del: get_prop.simps)

lemma where_fields_obj:
  "where_fields (JObj kvs) ks (vals, ps) =
     Inr (vals @ concat (map (\<lambda>k. field_values (own kvs k)) ks),
          ps @ map (\<lambda>k. field_clause k (own kvs k)) ks)"
proof (induction ks arbitrary: vals ps)
  case Nil
  show ?case by simp
next
  case (Cons k ks)
  show ?case
    unfolding where_fields_step Cons.IH by simp
qed

lemma own_distinct:
  "distinct (map fst kvs) \<Longrightarrow> (k, v) \<in> set kvs \<Longrightarrow> own kvs k = v"
  by (simp add: own_def)

lemma map_own:
  assumes "distinct (map fst kvs)"
  shows "map (\<lambda>k. f k (own kvs k)) (map fst kvs) = map (\<lambda>(k, v). f k v) kvs"
  using assms by (auto simp: own_distinct)

lemma queryWhereCondition_obj:
  assumes "distinct (map fst kvs)"
  shows "queryWhereCondition (JObj kvs) =
           Inr \<lparr>condition = join '' AND '' (map (\<lambda>(k, v). field_clause k v) kvs),
                cond_values = concat (map (\<lambda>(k, v). field_values v) kvs)\<rparr>"
proof -
  have vs: "map (\<lambda>k. field_values (own kvs k)) (map fst kvs) = map (\<lambda>(k, v). field_values v) kvs"
    using map_own [OF assms, of "\<lambda>k v. field_values v"] .
  have cs: "map (\<lambda>k. field_clause k (own kvs k)) (map fst kvs) = map (\<lambda>(k, v). field_clause k v) kvs"
    using map_own [OF assms, of field_clause] .
  have "where_fields (JObj kvs) (map fst kvs) ([], []) =
          Inr (concat (map (\<lambda>(k, v). field_values v) kvs), map (\<lambda>(k, v). field_clause k v) kvs)"
    unfolding where_fields_obj vs cs by simp
  then show ?thesis by (simp add: queryWhereCondition_def)
qed


lemma field_values_filter:
  "concat (map (\<lambda>(k, v). field_values v) kvs) = map snd (filter (\<lambda>(k, v). v \<noteq> JArr []) kvs)"
proof (induction kvs)
  case Nil
  show ?case by simp
next
  case (Cons kv kvs)
  obtain k v where kv: "kv = (k, v)" by (cases kv)
  show ?case
    using Cons.IH by (cases v) (simp_all add: kv field_values_def)
qed

text \<open>
  Claim C8. For a condition map (an object with distinct keys), the condition is the
  clauses of the fields joined by \<open>'' AND ''\<close> in the order of the keys, a field with a
  scalar value having the clause \<open>field = ?\<close> and a field with a non-empty array the clause
  \<open>field IN ( ? )\<close>; the values are, in the same order, the value of every field that is
  not an empty array, an array being one element. So the values line up with the
  placeholders.
\<close>

theorem queryWhereCondition_clauses:
  assumes "distinct (map fst kvs)"
  shows "\<exists>cs. queryWhereCondition (JObj kvs) =
                 Inr \<lparr>condition = join '' AND '' cs,
                      cond_values = map snd (filter (\<lambda>(k, v). v \<noteq> JArr []) kvs)\<rparr> \<and>
              length cs = length kvs \<and>
              (\<forall>i < length kvs.
                 (\<not> isArray (snd (kvs ! i)) \<longrightarrow> cs ! i = fst (kvs ! i) @ '' = ?'') \<and>
                 (isArray (snd (kvs ! i)) \<and> snd (kvs ! i) \<noteq> JArr [] \<longrightarrow>
                    cs ! i = fst (kvs ! i) @ '' IN ( ? )''))"
proof -
  let ?cs = "map (\<lambda>(k, v). field_clause k v) kvs"
  have res: "queryWhereCondition (JObj kvs) =
               Inr \<lparr>condition = join '' AND '' ?cs,
                    cond_values = map snd (filter (\<lambda>(k, v). v \<noteq> JArr []) kvs)\<rparr>"
    using queryWhereCondition_obj [OF assms] by (simp add: field_values_filter)
  have cl: "(\<not> isArray (snd (kvs ! i)) \<longrightarrow> ?cs ! i = fst (kvs ! i) @ '' = ?'') \<and>
            (isArray (snd (kvs ! i)) \<and> snd (kvs ! i) \<noteq> JArr [] \<longrightarrow>
               ?cs ! i = fst (kvs ! i) @ '' IN ( ? )'')"
    if "i < length kvs" for i
  proof -
    obtain k v where kv: "kvs ! i = (k, v)" by (cases "kvs ! i")
    show ?thesis
      using that by (cases v) (simp_all add: kv field_clause_def)
  qed
  show ?thesis
    using res cl by (intro exI [of _ ?cs]) simp
qed

theorem queryWhereCondition_clauses_witness:
  "distinct (map fst [(''a'', JNum 5), (''b'', JArr [JNum 1, JNum 2])]) \<and>
   queryWhereCondition (JObj [(''a'', JNum 5), (''b'', JArr [JNum 1, JNum 2])]) =
     Inr \<lparr>condition = ''a = ? AND b IN ( ? )'',
          cond_values = [JNum 5, JArr [JNum 1, JNum 2]]\<rparr>"
proof -
  let ?kvs = "[(''a'', JNum 5), (''b'', JArr [JNum 1, JNum 2])]"
  have d: "distinct (map fst ?kvs)" by simp
  obtain cs where r: "queryWhereCondition (JObj ?kvs) =
        Inr \<lparr>condition = join '' AND '' cs,
             cond_values = map snd (filter (\<lambda>(k, v). v \<noteq> JArr []) ?kvs)\<rparr>"
    and l: "length cs = length ?kvs"
    and c: "\<forall>i < length ?kvs.
                 (\<not> isArray (snd (?kvs ! i)) \<longrightarrow> cs ! i = fst (?kvs ! i) @ '' = ?'') \<and>
                 (isArray (snd (?kvs ! i)) \<and> snd (?kvs ! i) \<noteq> JArr [] \<longrightarrow>
                    cs ! i = fst (?kvs ! i) @ '' IN ( ? )'')"
    using queryWhereCondition_clauses [OF d] by blast
  from l obtain c0 c1 where cs: "cs = [c0, c1]"
    by (cases cs; cases "tl cs"; cases "tl (tl cs)") auto
  from c [rule_format, of 0] have "c0 = ''a = ?''" by (simp add: cs)
  moreover from c [rule_format, of 1] have "c1 = ''b IN ( ? )''" by (simp add: cs)
  ultimately show ?thesis using r d by (simp add: cs)
qed

lemma field_empty_array:
  "field_clause k (JArr []) = '' 1 = 0 ''" "field_values (JArr []) = []"
  by (simp_all add: field_clause_def field_values_def)

text \<open>
  Claim C3, amended. A field whose value is an empty array contributes the clause
  \<open>'' 1 = 0 ''\<close>, with one space before and one after, and no value; in particular the
  map with the single field \<open>a\<close> set to the empty array gives the condition
  \<open>'' 1 = 0 ''\<close> and no values.
\<close>

theorem queryWhereCondition_empty_array:
  "(distinct (map fst (pre @ (k, JArr []) # post)) \<longrightarrow>
      queryWhereCondition (JObj (pre @ (k, JArr []) # post)) =
        Inr \<lparr>condition = join '' AND ''
                 (map (\<lambda>(k, v). field_clause k v) pre @ '' 1 = 0 '' #
                  map (\<lambda>(k, v). field_clause k v) post),
             cond_values = concat (map (\<lambda>(k, v). field_values v) pre) @
                           concat (map (\<lambda>(k, v). field_values v) post)\<rparr>) \<and>
   queryWhereCondition (JObj [(''a'', JArr [])]) = Inr \<lparr>condition = '' 1 = 0 '', cond_values = []\<rparr>"
proof (intro conjI impI)
  assume d: "distinct (map fst (pre @ (k, JArr []) # post))"
  show "queryWhereCondition (JObj (pre @ (k, JArr []) # post)) =
        Inr \<lparr>condition = join '' AND ''
                 (map (\<lambda>(k, v). field_clause k v) pre @ '' 1 = 0 '' #
                  map (\<lambda>(k, v). field_clause k v) post),
             cond_values = concat (map (\<lambda>(k, v). field_values v) pre) @
                           concat (map (\<lambda>(k, v). field_values v) post)\<rparr>"
    unfolding queryWhereCondition_obj [OF d] by (simp add: field_empty_array)
next
  have "distinct (map fst [(''a'', JArr [])])" by simp
  from queryWhereCondition_obj [OF this]
  show "queryWhereCondition (JObj [(''a'', JArr [])]) = Inr \<lparr>condition = '' 1 = 0 '', cond_values = []\<rparr>"
    by (simp add: field_empty_array)
qed

theorem queryWhereCondition_empty_array_witness:
  "distinct (map fst ([(''a'', JNum 5)] @ (''b'', JArr []) # [(''c'', JStr ''x'')])) \<and>
   queryWhereCondition (JObj [(''a'', JNum 5), (''b'', JArr []), (''c'', JStr ''x'')]) =
     Inr \<lparr>condition = ''a = ? AND  1 = 0  AND c = ?'', cond_values = [JNum 5, JStr ''x'']\<rparr>"
  using queryWhereCondition_empty_array [of "[(''a'', JNum 5)]" "''b''" "[(''c'', JStr ''x'')]"]
  by (simp add: field_clause_def field_values_def)

text \<open>The condition is not the unpadded string \<open>''1 = 0''\<close> of the claim as stated.\<close>

theorem queryWhereCondition_empty_array_counterexample:
  "queryWhereCondition (JObj [(''a'', JArr [])]) \<noteq> Inr \<lparr>condition = ''1 = 0'', cond_values = []\<rparr>"
  by (simp add: queryWhereCondition_def)

section \<open>Rooms\<close>

text \<open>
  Claim C9. \<open>socketKey k\<close> is the tenant id of the instance, a dash and \<open>k\<close>; two instances
  with different tenant ids give different rooms for the same \<open>k\<close>.
\<close>

theorem socketKey_namespaced:
  "socketKey this k = priv_tenantID this @ ''-'' @ k \<and>
   (priv_tenantID other \<noteq> priv_tenantID this \<longrightarrow> socketKey other k \<noteq> socketKey this k)"
  by (simp add: socketKey_def)

theorem socketKey_namespaced_witness:
  "socketKey (heap (snd (ABRequestService
       \<lparr>req_jobID = Some ''j1'', req_tenantID = Some ''t1'', req_user = JUndefined,
        req_data = JUndefined, req_param = JUndefined\<rparr>
       \<lparr>ctl_key = None, ctl_config = JObj [], ctl_connections = JObj [], ctl_models = JObj []\<rparr>
       empty_world)) ! 0) ''obj'' = ''t1-obj'' \<and>
   socketKey (heap (snd (ABRequestService
       \<lparr>req_jobID = Some ''j2'', req_tenantID = None, req_user = JUndefined,
        req_data = JUndefined, req_param = JUndefined\<rparr>
       \<lparr>ctl_key = None, ctl_config = JObj [], ctl_connections = JObj [], ctl_models = JObj []\<rparr>
       empty_world)) ! 0) ''obj'' \<noteq> ''t1-obj''"
  using socketKey_namespaced
    [of "heap (snd (ABRequestService
       \<lparr>req_jobID = Some ''j1'', req_tenantID = Some ''t1'', req_user = JUndefined,
        req_data = JUndefined, req_param = JUndefined\<rparr>
       \<lparr>ctl_key = None, ctl_config = JObj [], ctl_connections = JObj [], ctl_models = JObj []\<rparr>
       empty_world)) ! 0" "''obj''"
       "heap (snd (ABRequestService
       \<lparr>req_jobID = Some ''j2'', req_tenantID = None, req_user = JUndefined,
        req_data = JUndefined, req_param = JUndefined\<rparr>
       \<lparr>ctl_key = None, ctl_config = JObj [], ctl_connections = JObj [], ctl_models = JObj []\<rparr>
       empty_world)) ! 0"]
  by (simp add: ABRequestService_def empty_world_def str_or_def Let_def socketKey_def)

section \<open>The constructor\<close>

lemma ABRequestService_instance:
  "ABRequestService req ctl w = (a, w1) \<Longrightarrow>
     a = length (heap w) \<and>
     deref w1 a =
       Some \<lparr>jobID = str_or (req_jobID req) ''??'',
             priv_tenantID = str_or (req_tenantID req) ''??'',
             priv_user = jor (req_user req) JNull,
             serviceKey = str_or (ctl_key ctl) (str_or (req_jobID req) ''??''),
             data = jor (req_data req) (req_param req),
             controller = ctl, priv_DBConn = DBConn, priv_Model = Model, debug = False\<rparr>"
  by (auto simp: ABRequestService_def deref_def Let_def)

lemma str_or_nonempty: "d \<noteq> [] \<Longrightarrow> str_or s d \<noteq> []"
  by (simp add: str_or_def split: option.splits)

lemma ABRequestService_tenantID_nonempty:
  "ABRequestService req ctl w = (a, w1) \<Longrightarrow> deref w1 a = Some this \<Longrightarrow> priv_tenantID this \<noteq> []"
  by (drule ABRequestService_instance) (auto simp: str_or_nonempty)

section \<open>Connection routing\<close>

text \<open>
  Claim C4. With a connection table, \<open>configDB\<close> returns the definition keyed
  \<open>appbuilder\<close> when the raw tenant id is not the sentinel \<open>??\<close> and the one keyed
  \<open>site\<close> when it is, changing nothing else; when the required key is absent it returns
  null, without an exception and without another attempt, and logs one line. An instance
  built from a request whose tenant id is absent or the sentinel has the sentinel as its
  raw tenant id.
\<close>

theorem configDB_routing:
  assumes "ctl_connections (controller this) = JObj defs"
  shows "(priv_tenantID this \<noteq> ''??'' \<and> map_of defs ''appbuilder'' = Some d \<and> truthy d \<longrightarrow>
            configDB this w = (Inr d, w)) \<and>
         (priv_tenantID this = ''??'' \<and> map_of defs ''site'' = Some d \<and> truthy d \<longrightarrow>
            configDB this w = (Inr d, w)) \<and>
         (priv_tenantID this \<noteq> ''??'' \<and> map_of defs ''appbuilder'' = None \<longrightarrow>
            configDB this w =
              (Inr JNull,
               w\<lparr>console := console w @
                    [LogLine (jobID this)
                       [JStr ''Error: No 'appbuilder' connection defined:'', JObj defs]]\<rparr>)) \<and>
         (priv_tenantID this = ''??'' \<and> map_of defs ''site'' = None \<longrightarrow>
            configDB this w =
              (Inr JNull,
               w\<lparr>console := console w @
                    [LogLine (jobID this)
                       [JStr ''Error: No 'site' connection defined:'', JObj defs]]\<rparr>)) \<and>
         (\<forall>req ctl w0 a w1 c.
            (req_tenantID req = None \<or> req_tenantID req = Some ''??'') \<and>
            ABRequestService req ctl w0 = (a, w1) \<and> deref w1 a = Some c \<longrightarrow>
            priv_tenantID c = ''??'')"
proof -
  have ctor: "priv_tenantID c = ''??''"
    if "(req_tenantID req = None \<or> req_tenantID req = Some ''??'') \<and>
        ABRequestService req ctl w0 = (a, w1) \<and> deref w1 a = Some c"
    for req ctl w0 a w1 c
    using that ABRequestService_instance [of req ctl w0 a w1] by (auto simp: str_or_def)
  have routes:
    "priv_tenantID this \<noteq> ''??'' \<and> map_of defs ''appbuilder'' = Some d \<and> truthy d \<longrightarrow>
       configDB this w = (Inr d, w)"
    "priv_tenantID this = ''??'' \<and> map_of defs ''site'' = Some d \<and> truthy d \<longrightarrow>
       configDB this w = (Inr d, w)"
    "priv_tenantID this \<noteq> ''??'' \<and> map_of defs ''appbuilder'' = None \<longrightarrow>
       configDB this w =
         (Inr JNull,
          w\<lparr>console := console w @
               [LogLine (jobID this)
                  [JStr ''Error: No 'appbuilder' connection defined:'', JObj defs]]\<rparr>)"
    "priv_tenantID this = ''??'' \<and> map_of defs ''site'' = None \<longrightarrow>
       configDB this w =
         (Inr JNull,
          w\<lparr>console := console w @
               [LogLine (jobID this)
                  [JStr ''Error: No 'site' connection defined:'', JObj defs]]\<rparr>)"
    using assms by (simp_all add: configDB_def log_def)
  show ?thesis
    using routes ctor by blast
qed

theorem configDB_routing_witness:
  "configDB (sample_ctx ''j1'' ''t1'' sample_connections) empty_world =
     (Inr (JObj [(''database'', JStr ''appbuilder'')]), empty_world) \<and>
   configDB (sample_ctx ''j1'' ''??'' sample_connections) empty_world =
     (Inr (JObj [(''database'', JStr ''site'')]), empty_world) \<and>
   fst (configDB (sample_ctx ''j1'' ''t1'' (JObj [])) empty_world) = Inr JNull \<and>
   length (console (snd (configDB (sample_ctx ''j1'' ''t1'' (JObj [])) empty_world))) = 1 \<and>
   fst (configDB (sample_ctx ''j1'' ''??'' (JObj [])) empty_world) = Inr JNull \<and>
   length (console (snd (configDB (sample_ctx ''j1'' ''??'' (JObj [])) empty_world))) = 1 \<and>
   (\<exists>c. deref (snd (ABRequestService (sample_request ''j1'' None) (sample_controller (JObj []))
                      empty_world)) 0 = Some c \<and>
        priv_tenantID c = ''??'')"
proof -
  let ?defs = "[(''appbuilder'', JObj [(''database'', JStr ''appbuilder'')]),
                (''site'', JObj [(''database'', JStr ''site'')])]"
  have tables:
    "ctl_connections (controller (sample_ctx jid tid sample_connections)) = JObj ?defs"
    "ctl_connections (controller (sample_ctx jid tid (JObj []))) = JObj []"
    "priv_tenantID (sample_ctx jid tid conns) = tid" for jid tid conns
    by (simp_all add: sample_ctx_def sample_controller_def sample_connections_def)
  have made: "ABRequestService (sample_request ''j1'' None) (sample_controller (JObj [])) empty_world =
      (0, snd (ABRequestService (sample_request ''j1'' None) (sample_controller (JObj []))
                 empty_world))"
    by (simp add: ABRequestService_def empty_world_def Let_def)
  obtain c where c: "deref (snd (ABRequestService (sample_request ''j1'' None)
      (sample_controller (JObj [])) empty_world)) 0 = Some c"
    using ABRequestService_instance [OF made] by blast
  note appbuilder = configDB_routing [OF tables(1), of "''j1''" "''t1''"
      "JObj [(''database'', JStr ''appbuilder'')]" empty_world]
  note site = configDB_routing [OF tables(1), of "''j1''" "''??''"
      "JObj [(''database'', JStr ''site'')]" empty_world]
  note missing = configDB_routing [OF tables(2), of "''j1''" "''t1''" JNull empty_world]
  note missing_site = configDB_routing [OF tables(2), of "''j1''" "''??''" JNull empty_world]
  have "\<forall>req ctl w0 a w1 c.
          (req_tenantID req = None \<or> req_tenantID req = Some ''??'') \<and>
          ABRequestService req ctl w0 = (a, w1) \<and> deref w1 a = Some c \<longrightarrow>
          priv_tenantID c = ''??''"
    using appbuilder by blast
  from this [rule_format, of "sample_request ''j1'' None" "sample_controller (JObj [])"
      empty_world 0 _ c]
  have "priv_tenantID c = ''??''"
    using made c by (simp add: sample_request_def)
  then show ?thesis
    using appbuilder site missing missing_site c
    by (simp add: tables(3) empty_world_def)
qed

section \<open>The envelope\<close>

text \<open>
  Claim C2, amended. \<open>serviceRequest\<close> sends exactly one envelope, with the type, the job
  id, the raw tenant id and the user of the instance, and with the payload as data when
  the payload is truthy, an empty object when it is not; the callback receives the reply
  of the transport to that envelope.
\<close>

theorem serviceRequest_envelope:
  "serviceRequest tr this k d w =
     (tr (JObj [(''type'', JStr k),
                (''param'', JObj [(''jobID'', JStr (jobID this)),
                                  (''tenantID'', JStr (priv_tenantID this)),
                                  (''user'', priv_user this),
                                  (''data'', if truthy d then d else JObj [])])]),
      w\<lparr>wire := wire w @
           [JObj [(''type'', JStr k),
                  (''param'', JObj [(''jobID'', JStr (jobID this)),
                                    (''tenantID'', JStr (priv_tenantID this)),
                                    (''user'', priv_user this),
                                    (''data'', if truthy d then d else JObj [])])]]\<rparr>)"
  by (simp add: serviceRequest_def request_def toParam_def jor_def Let_def)

text \<open>For the payload null the envelope sent does not carry null as its data.\<close>

theorem serviceRequest_envelope_counterexample:
  "wire (snd (serviceRequest (\<lambda>e. (JNull, JNull))
       \<lparr>jobID = ''j1'', priv_tenantID = ''t1'', priv_user = JNull, serviceKey = ''svc'',
        data = JObj [],
        controller = \<lparr>ctl_key = None, ctl_config = JObj [], ctl_connections = JObj [],
                      ctl_models = JObj []\<rparr>,
        priv_DBConn = DBConn, priv_Model = Model, debug = False\<rparr>
       ''user.find'' JNull empty_world)) \<noteq>
   [JObj [(''type'', JStr ''user.find''),
          (''param'', JObj [(''jobID'', JStr ''j1''), (''tenantID'', JStr ''t1''),
                            (''user'', JNull), (''data'', JNull)])]]"
  by (simp add: serviceRequest_def request_def toParam_def jor_def empty_world_def)

section \<open>Broadcasts\<close>

lemma broadcast_reply:
  assumes "notify_developer w = Some n"
    and "tr (toParam this ''api.broadcast'' packets) = (err, res)"
  shows "\<exists>w1. broadcast tr this packets cb w = Inr (if cb then Some (err, res) else None, w1) \<and>
              alerts w1 =
                (if truthy err then
                   alerts w @
                     [\<lparr>via = n, domain = ''developer'', alert_error = err,
                       info = JObj [(''tenantID'', JStr (priv_tenantID this)),
                                    (''jobID'', JStr (jobID this))]\<rparr>]
                 else alerts w) \<and>
              wire w1 = wire w @ [toParam this ''api.broadcast'' packets]"
  using assms
  by (simp add: broadcast_def serviceRequest_def request_def notify_def log_def Let_def)

text \<open>
  Claim C7. When the transport reports an error (a truthy first argument), \<open>broadcast\<close>
  hands one alert of the domain \<open>developer\<close> to the notifier, with the tenant id and the job
  id of the instance as its info, and the callback, when one was passed, is invoked with
  the error and the results; when the transport reports none, no alert is raised and the
  callback is invoked all the same.
\<close>

theorem broadcast_alert_and_callback:
  assumes "notify_developer w = Some n"
    and "tr (toParam this ''api.broadcast'' packets) = (err, res)"
  shows "\<exists>w1. broadcast tr this packets cb w = Inr (if cb then Some (err, res) else None, w1) \<and>
              alerts w1 =
                (if truthy err then
                   alerts w @
                     [\<lparr>via = n, domain = ''developer'', alert_error = err,
                       info = JObj [(''tenantID'', JStr (priv_tenantID this)),
                                    (''jobID'', JStr (jobID this))]\<rparr>]
                 else alerts w) \<and>
              wire w1 = wire w @ [toParam this ''api.broadcast'' packets]"
  using assms by (rule broadcast_reply)

theorem broadcast_alert_and_callback_witness:
  "(\<exists>w1. broadcast (\<lambda>e. (JStr ''timeout'', JNull)) (sample_ctx ''j1'' ''t1'' (JObj []))
            (JArr []) True two_tenants = Inr (Some (JStr ''timeout'', JNull), w1) \<and>
          alerts w1 =
            [\<lparr>via = 1, domain = ''developer'', alert_error = JStr ''timeout'',
              info = JObj [(''tenantID'', JStr ''t1''), (''jobID'', JStr ''j1'')]\<rparr>]) \<and>
   (\<exists>w1. broadcast (\<lambda>e. (JNull, JStr ''ok'')) (sample_ctx ''j1'' ''t1'' (JObj []))
            (JArr []) True two_tenants = Inr (Some (JNull, JStr ''ok''), w1) \<and> alerts w1 = [])"
proof -
  have n: "notify_developer two_tenants = Some 1"
    by (simp add: two_tenants_def ABRequestService_def empty_world_def Let_def)
  have a: "alerts two_tenants = []"
    by (simp add: two_tenants_def ABRequestService_def empty_world_def Let_def)
  show ?thesis
    using
      broadcast_alert_and_callback [where w = two_tenants and n = 1
        and tr = "\<lambda>e. (JStr ''timeout'', JNull)" and this = "sample_ctx ''j1'' ''t1'' (JObj [])"
        and packets = "JArr []" and err = "JStr ''timeout''" and res = JNull and cb = True]
      broadcast_alert_and_callback [where w = two_tenants and n = 1
        and tr = "\<lambda>e. (JNull, JStr ''ok'')" and this = "sample_ctx ''j1'' ''t1'' (JObj [])"
        and packets = "JArr []" and err = JNull and res = "JStr ''ok''" and cb = True]
      n
    by (auto simp: a sample_ctx_def)
qed

section \<open>The create, update and delete broadcasts\<close>

text \<open>
  What a closure does for the instance it captured: one envelope with one packet, whose
  room is the socket key of that instance; the legacy callback and the promise agree.
\<close>

lemma dc_closure_result:
  assumes "notify_developer w = Some n"
    and "tr (toParam this ''api.broadcast''
               (JArr [JObj [(''room'', JStr (socketKey this ident)), (''event'', JStr event),
                            (''data'', JObj [(''objectId'', JStr ident), (''data'', item)])]])) =
           (err, res)"
  shows "\<exists>w1. dc_closure default_key event tr this ident item k cb w =
                Inr (\<lparr>legacy_cb = (if cb then Some err else None),
                      promise = (if truthy err then Rejected err else Resolved)\<rparr>, w1) \<and>
              wire w1 = wire w @
                [toParam this ''api.broadcast''
                   (JArr [JObj [(''room'', JStr (socketKey this ident)), (''event'', JStr event),
                                (''data'', JObj [(''objectId'', JStr ident), (''data'', item)])]])] \<and>
              perf w1 = perf w @ [Mark (str_or k (default_key @ ident)),
                                  Measure (str_or k (default_key @ ident))]"
proof -
  let ?packets = "JArr [JObj [(''room'', JStr (socketKey this ident)), (''event'', JStr event),
                            (''data'', JObj [(''objectId'', JStr ident), (''data'', item)])]]"
  let ?w0 = "performance_mark (str_or k (default_key @ ident)) w"
  have n: "notify_developer ?w0 = Some n"
    using assms(1) by (simp add: performance_mark_def)
  from broadcast_reply
    [where w = ?w0 and n = n and tr = tr and this = this and packets = ?packets and err = err
      and res = res and cb = True] n assms(2)
  obtain w1 where b: "broadcast tr this ?packets True ?w0 = Inr (Some (err, res), w1)"
    and wi: "wire w1 = wire ?w0 @ [toParam this ''api.broadcast'' ?packets]"
    by auto
  have p: "perf w1 = perf ?w0"
    using b n
    by (auto simp: broadcast_def serviceRequest_def request_def notify_def log_def Let_def
        performance_mark_def split: if_splits prod.splits)
  have w0: "wire ?w0 = wire w" "perf ?w0 = perf w @ [Mark (str_or k (default_key @ ident))]"
    by (simp_all add: performance_mark_def)
  show ?thesis
    by (simp add: dc_closure_def Let_def b wi p w0 performance_measure_def)
qed

lemma dcCreate_of_slot:
  assumes "deref w a = Some req" and "broadcast_dcCreate w = Some b" and "deref w b = Some this"
  shows "dcCreate tr a ident item k cb w = dcCreate_closure tr this ident item k cb w"
  using assms by (simp add: dcCreate_def call_closure_def)

lemma dcDelete_of_slot:
  assumes "deref w a = Some req" and "broadcast_dcDelete w = Some b" and "deref w b = Some this"
  shows "dcDelete tr a ident item k cb w = dcDelete_closure tr this ident item k cb w"
  using assms by (simp add: dcDelete_def call_closure_def)

lemma dcUpdate_of_slot:
  assumes "deref w a = Some req" and "broadcast_dcUpdate w = Some b" and "deref w b = Some this"
  shows "dcUpdate tr a ident item k cb w = dcUpdate_closure tr this ident item k cb w"
  using assms by (simp add: dcUpdate_def call_closure_def)

text \<open>
  Claim C5, at a failing input. After the constructor ran for tenant \<open>t1\<close> (address 0) and
  then for tenant \<open>t2\<close>, each of \<^verbatim>\<open>dcCreate\<close>, \<^verbatim>\<open>dcUpdate\<close> and \<^verbatim>\<open>dcDelete\<close> called on
  the first instance sends one packet, but its room is \<open>t2-obj1\<close>, the socket key of the
  second instance, and the envelope carries the job and the tenant of the second instance;
  the socket key of the instance the call was made on is \<open>t1-obj1\<close>.
\<close>

theorem dc_room_of_latest_instance:
  "(\<exists>c. deref two_tenants 0 = Some c \<and> priv_tenantID c = ''t1'' \<and>
        socketKey c ''obj1'' = ''t1-obj1'') \<and>
   (\<exists>r w1. dcCreate (\<lambda>e. (JNull, JNull)) 0 ''obj1'' (JNum 5) None False two_tenants = Inr (r, w1) \<and>
      wire w1 =
        [JObj [(''type'', JStr ''api.broadcast''),
               (''param'',
                JObj [(''jobID'', JStr ''j2''), (''tenantID'', JStr ''t2''), (''user'', JNull),
                      (''data'',
                       JArr [JObj [(''room'', JStr ''t2-obj1''),
                                   (''event'', JStr ''ab.datacollection.create''),
                                   (''data'', JObj [(''objectId'', JStr ''obj1''),
                                                    (''data'', JNum 5)])]])])]]) \<and>
   (\<exists>r w1. dcUpdate (\<lambda>e. (JNull, JNull)) 0 ''obj1'' (JNum 5) None False two_tenants = Inr (r, w1) \<and>
      wire w1 =
        [JObj [(''type'', JStr ''api.broadcast''),
               (''param'',
                JObj [(''jobID'', JStr ''j2''), (''tenantID'', JStr ''t2''), (''user'', JNull),
                      (''data'',
                       JArr [JObj [(''room'', JStr ''t2-obj1''),
                                   (''event'', JStr ''ab.datacollection.update''),
                                   (''data'', JObj [(''objectId'', JStr ''obj1''),
                                                    (''data'', JNum 5)])]])])]]) \<and>
   (\<exists>r w1. dcDelete (\<lambda>e. (JNull, JNull)) 0 ''obj1'' (JNum 5) None False two_tenants = Inr (r, w1) \<and>
      wire w1 =
        [JObj [(''type'', JStr ''api.broadcast''),
               (''param'',
                JObj [(''jobID'', JStr ''j2''), (''tenantID'', JStr ''t2''), (''user'', JNull),
                      (''data'',
                       JArr [JObj [(''room'', JStr ''t2-obj1''),
                                   (''event'', JStr ''ab.datacollection.delete''),
                                   (''data'', JObj [(''objectId'', JStr ''obj1''),
                                                    (''data'', JNum 5)])]])])]])"
proof -
  have w: "two_tenants =
      \<lparr>heap = [\<lparr>jobID = ''j1'', priv_tenantID = ''t1'', priv_user = JNull, serviceKey = ''svc'',
                 data = JObj [(''id'', JNum 7)], controller = sample_controller (JObj []),
                 priv_DBConn = DBConn, priv_Model = Model, debug = False\<rparr>,
               \<lparr>jobID = ''j2'', priv_tenantID = ''t2'', priv_user = JNull, serviceKey = ''svc'',
                 data = JObj [(''id'', JNum 7)], controller = sample_controller (JObj []),
                 priv_DBConn = DBConn, priv_Model = Model, debug = False\<rparr>],
       notify_builder = Some 1, notify_developer = Some 1,
       broadcast_dcCreate = Some 1, broadcast_dcDelete = Some 1, broadcast_dcUpdate = Some 1,
       console = [], alerts = [], wire = [], perf = [], db_calls = []\<rparr>"
    by (simp add: two_tenants_def sample_request_def sample_controller_def ABRequestService_def
        empty_world_def Let_def str_or_def jor_def)
  have first: "\<exists>c. deref two_tenants 0 = Some c \<and> priv_tenantID c = ''t1'' \<and>
        socketKey c ''obj1'' = ''t1-obj1''"
    by (simp add: w deref_def socketKey_def)
  have closure: "\<exists>r w1. dc_closure dk ev (\<lambda>e. (JNull, JNull)) (heap two_tenants ! 1) ''obj1'' (JNum 5)
        None False two_tenants = Inr (r, w1) \<and>
      wire w1 =
        [JObj [(''type'', JStr ''api.broadcast''),
               (''param'',
                JObj [(''jobID'', JStr ''j2''), (''tenantID'', JStr ''t2''), (''user'', JNull),
                      (''data'',
                       JArr [JObj [(''room'', JStr ''t2-obj1''),
                                   (''event'', JStr ev),
                                   (''data'', JObj [(''objectId'', JStr ''obj1''),
                                                    (''data'', JNum 5)])]])])]]" for dk ev
    by (simp add: w dc_closure_def broadcast_def serviceRequest_def request_def toParam_def
        jor_def socketKey_def performance_mark_def performance_measure_def Let_def)
  have slots: "deref two_tenants 0 \<noteq> None" "deref two_tenants 1 = Some (heap two_tenants ! 1)"
    "broadcast_dcCreate two_tenants = Some 1" "broadcast_dcUpdate two_tenants = Some 1"
    "broadcast_dcDelete two_tenants = Some 1"
    by (simp_all add: w deref_def)
  have "dcCreate tr 0 i x k cb two_tenants = dcCreate_closure tr (heap two_tenants ! 1) i x k cb two_tenants"
    "dcUpdate tr 0 i x k cb two_tenants = dcUpdate_closure tr (heap two_tenants ! 1) i x k cb two_tenants"
    "dcDelete tr 0 i x k cb two_tenants = dcDelete_closure tr (heap two_tenants ! 1) i x k cb two_tenants"
    for tr i x k cb
    using slots by (auto simp: dcCreate_def dcUpdate_def dcDelete_def call_closure_def)
  then show ?thesis
    using first closure
    by (simp add: dcCreate_closure_def dcUpdate_closure_def dcDelete_closure_def)
qed

section \<open>The factory request\<close>

text \<open>
  Claim C6. For an instance with a non-empty raw tenant id (as every constructed instance
  has), \<open>toABFactoryReq\<close> adds a new instance and leaves the others as they are; the new
  instance has the tenant id of the original, the job id \<open>ABFactory(tenant id)\<close>, the
  \<^verbatim>\<open>_DBConn\<close> and \<^verbatim>\<open>_Model\<close> of the original, the same controller, no data, no user,
  and nothing else of the original: its service key and debug flag are those of a fresh
  instance.
\<close>

theorem toABFactoryReq_fields:
  assumes "priv_tenantID this \<noteq> []"
    and "toABFactoryReq this w = (b, w1)"
  shows "b = length (heap w) \<and> take b (heap w1) = heap w \<and>
         deref w1 b =
           Some \<lparr>jobID = ''ABFactory('' @ priv_tenantID this @ '')'',
                 priv_tenantID = priv_tenantID this,
                 priv_user = JNull,
                 serviceKey = str_or (ctl_key (controller this))
                                (''ABFactory('' @ priv_tenantID this @ '')''),
                 data = JUndefined,
                 controller = controller this,
                 priv_DBConn = priv_DBConn this,
                 priv_Model = priv_Model this,
                 debug = False\<rparr>"
  using assms
  by (auto simp: toABFactoryReq_def ABRequestService_def deref_def Let_def str_or_def jor_def)

theorem toABFactoryReq_fields_witness:
  "deref (snd (toABFactoryReq
            ((sample_ctx ''j1'' ''t1'' (JObj []))\<lparr>priv_DBConn := MockDBConn 3, debug := True\<rparr>)
            empty_world)) 0 =
     Some \<lparr>jobID = ''ABFactory(t1)'', priv_tenantID = ''t1'', priv_user = JNull,
           serviceKey = ''svc'', data = JUndefined, controller = sample_controller (JObj []),
           priv_DBConn = MockDBConn 3, priv_Model = Model, debug = False\<rparr>"
  using toABFactoryReq_fields
    [of "(sample_ctx ''j1'' ''t1'' (JObj []))\<lparr>priv_DBConn := MockDBConn 3, debug := True\<rparr>"
      empty_world
      "fst (toABFactoryReq
            ((sample_ctx ''j1'' ''t1'' (JObj []))\<lparr>priv_DBConn := MockDBConn 3, debug := True\<rparr>)
            empty_world)"
      "snd (toABFactoryReq
            ((sample_ctx ''j1'' ''t1'' (JObj []))\<lparr>priv_DBConn := MockDBConn 3, debug := True\<rparr>)
            empty_world)"]
  by (auto simp: sample_ctx_def sample_controller_def empty_world_def str_or_def)

section \<open>Parameters without data\<close>

text \<open>
  Claim C10. An instance built from a request with neither data nor param has undefined
  data, and so has every instance made by \<open>toABFactoryReq\<close>; on such an instance
  \<open>param\<close> and \<open>params\<close> raise a TypeError.
\<close>

theorem param_without_data:
  "(req_data req = JUndefined \<and> req_param req = JUndefined \<and>
    ABRequestService req ctl w = (a, w1) \<longrightarrow>
      (\<exists>c. deref w1 a = Some c \<and> data c = JUndefined \<and>
           param c k = Inl TypeError \<and> params c ignoreList = Inl TypeError)) \<and>
   (toABFactoryReq this w = (b, w2) \<longrightarrow>
      (\<exists>c. deref w2 b = Some c \<and> data c = JUndefined \<and>
           param c k = Inl TypeError \<and> params c ignoreList = Inl TypeError))"
  by (auto simp: toABFactoryReq_def ABRequestService_def deref_def Let_def jor_def param_def params_def)

theorem param_without_data_witness:
  "(\<exists>c. deref (snd (ABRequestService
              \<lparr>req_jobID = Some ''j1'', req_tenantID = Some ''t1'', req_user = JUndefined,
               req_data = JUndefined, req_param = JUndefined\<rparr>
              (sample_controller (JObj [])) empty_world)) 0 = Some c \<and>
        data c = JUndefined \<and> param c ''id'' = Inl TypeError \<and> params c [] = Inl TypeError) \<and>
   (\<exists>c. deref (snd (toABFactoryReq (sample_ctx ''j1'' ''t1'' (JObj [])) empty_world)) 0 = Some c \<and>
        data c = JUndefined \<and> param c ''id'' = Inl TypeError \<and> params c [] = Inl TypeError)"
  using param_without_data
    [of "\<lparr>req_jobID = Some ''j1'', req_tenantID = Some ''t1'', req_user = JUndefined,
               req_data = JUndefined, req_param = JUndefined\<rparr>"
      "sample_controller (JObj [])" empty_world
      "fst (ABRequestService
              \<lparr>req_jobID = Some ''j1'', req_tenantID = Some ''t1'', req_user = JUndefined,
               req_data = JUndefined, req_param = JUndefined\<rparr>
              (sample_controller (JObj [])) empty_world)"
      "snd (ABRequestService
              \<lparr>req_jobID = Some ''j1'', req_tenantID = Some ''t1'', req_user = JUndefined,
               req_data = JUndefined, req_param = JUndefined\<rparr>
              (sample_controller (JObj [])) empty_world)"
      "''id''" "[]" "sample_ctx ''j1'' ''t1'' (JObj [])"
      "fst (toABFactoryReq (sample_ctx ''j1'' ''t1'' (JObj [])) empty_world)"
      "snd (toABFactoryReq (sample_ctx ''j1'' ''t1'' (JObj [])) empty_world)"]
  by (simp add: ABRequestService_def toABFactoryReq_def empty_world_def Let_def)

section \<open>Query retries\<close>

lemma query_exhausted:
  "3 < n \<Longrightarrow> query db this q vals n (Some p) w = (Inr p, w)"
  by (subst query.simps) simp

lemma query_retry:
  assumes "n \<le> 3"
    and "error (snd (db (db_calls w @ [(q, vals)]))) = Some e"
    and "is_transient e"
  shows "\<exists>w1. query db this q vals n prev w =
                query db this q vals (Suc n) (Some (snd (db (db_calls w @ [(q, vals)])))) w1 \<and>
              db_calls w1 = db_calls w @ [(q, vals)]"
proof -
  define wa where "wa = w\<lparr>db_calls := db_calls w @ [(q, vals)]\<rparr>"
  define wb where "wb =
    (if debug this then log this [JStr ''req.query():'', JStr (fst (db (db_calls wa)))] wa else wa)"
  define w1 where "w1 = wb\<lparr>console := console wb @ [ConsoleError e, ConsoleText ''trying again'']\<rparr>"
  have n: "\<not> 3 < n" using assms(1) by simp
  have ca: "db_calls wa = db_calls w @ [(q, vals)]"
    by (simp add: wa_def)
  have "query db this q vals n prev w =
          query db this q vals (Suc n) (Some (snd (db (db_calls w @ [(q, vals)])))) w1"
    by (subst query.simps) (simp add: n assms(2,3) Let_def w1_def wb_def wa_def)
  moreover have "db_calls w1 = db_calls w @ [(q, vals)]"
    by (simp add: w1_def wb_def ca log_def)
  ultimately show ?thesis by blast
qed

lemma query_all_transient:
  assumes "\<forall>i. 1 \<le> i \<and> i \<le> 4 \<longrightarrow>
             (\<exists>e. error (snd (db (db_calls w @ replicate i (q, vals)))) = Some e \<and> is_transient e)"
  shows "\<exists>w4. query db this q vals 0 None w =
                (Inr (snd (db (db_calls w @ replicate 4 (q, vals)))), w4) \<and>
              db_calls w4 = db_calls w @ replicate 4 (q, vals)"
proof -
  let ?c = "(q, vals)"
  have r4: "replicate 4 ?c = [?c, ?c, ?c, ?c]"
    by (simp add: numeral_eq_Suc)
  from assms [rule_format, of 1]
  obtain e1 where e1: "error (snd (db (db_calls w @ [?c]))) = Some e1" "is_transient e1"
    by auto
  from query_retry [where n = 0 and db = db and w = w and q = q and vals = vals and e = e1
      and this = this and prev = None] e1
  obtain w1 where s1: "query db this q vals 0 None w =
        query db this q vals (Suc 0) (Some (snd (db (db_calls w @ [?c])))) w1"
    and c1: "db_calls w1 = db_calls w @ [?c]" by auto
  from assms [rule_format, of 2]
  obtain e2 where e2: "error (snd (db (db_calls w1 @ [?c]))) = Some e2" "is_transient e2"
    by (auto simp: c1 numeral_2_eq_2)
  from query_retry [where n = "Suc 0" and db = db and w = w1 and q = q and vals = vals and e = e2
      and this = this and prev = "Some (snd (db (db_calls w @ [?c])))"] e2
  obtain w2 where s2: "query db this q vals (Suc 0) (Some (snd (db (db_calls w @ [?c])))) w1 =
        query db this q vals (Suc (Suc 0)) (Some (snd (db (db_calls w1 @ [?c])))) w2"
    and c2: "db_calls w2 = db_calls w1 @ [?c]" by auto
  from assms [rule_format, of 3]
  obtain e3 where e3: "error (snd (db (db_calls w2 @ [?c]))) = Some e3" "is_transient e3"
    by (auto simp: c1 c2 numeral_3_eq_3)
  from query_retry [where n = "Suc (Suc 0)" and db = db and w = w2 and q = q and vals = vals
      and e = e3 and this = this and prev = "Some (snd (db (db_calls w1 @ [?c])))"] e3
  obtain w3 where s3: "query db this q vals (Suc (Suc 0)) (Some (snd (db (db_calls w1 @ [?c])))) w2 =
        query db this q vals (Suc (Suc (Suc 0))) (Some (snd (db (db_calls w2 @ [?c])))) w3"
    and c3: "db_calls w3 = db_calls w2 @ [?c]" by auto
  from assms [rule_format, of 4]
  obtain e4 where e4: "error (snd (db (db_calls w3 @ [?c]))) = Some e4" "is_transient e4"
    by (auto simp: c1 c2 c3 r4)
  from query_retry [where n = "Suc (Suc (Suc 0))" and db = db and w = w3 and q = q and vals = vals
      and e = e4 and this = this and prev = "Some (snd (db (db_calls w2 @ [?c])))"] e4
  obtain w4 where s4: "query db this q vals (Suc (Suc (Suc 0))) (Some (snd (db (db_calls w2 @ [?c])))) w3 =
        query db this q vals (Suc (Suc (Suc (Suc 0)))) (Some (snd (db (db_calls w3 @ [?c])))) w4"
    and c4: "db_calls w4 = db_calls w3 @ [?c]" by auto
  have s5: "query db this q vals (Suc (Suc (Suc (Suc 0)))) (Some (snd (db (db_calls w3 @ [?c])))) w4 =
        (Inr (snd (db (db_calls w3 @ [?c]))), w4)"
    by (rule query_exhausted) simp
  have "query db this q vals 0 None w = (Inr (snd (db (db_calls w3 @ [?c]))), w4)"
    using s1 s2 s3 s4 s5 by simp
  moreover have "db_calls w3 @ [?c] = db_calls w @ replicate 4 ?c"
    by (simp add: c1 c2 c3 r4)
  moreover have "db_calls w4 = db_calls w @ replicate 4 ?c"
    by (simp add: c1 c2 c3 c4 r4)
  ultimately show ?thesis by simp
qed

text \<open>
  Claim C1, amended. When the driver answers the first four executions of the query with
  an error of the transient class, \<open>query\<close> executes the query exactly four times (the
  first attempt and three retries) and then invokes the callback with the outcome of the
  fourth, last execution.
\<close>

theorem query_retries_then_last_outcome:
  assumes "\<forall>i. 1 \<le> i \<and> i \<le> 4 \<longrightarrow>
             (\<exists>e. error (snd (db (db_calls w @ replicate i (q, vals)))) = Some e \<and> is_transient e)"
  shows "fst (query db this q vals 0 None w) =
           Inr (snd (db (db_calls w @ replicate 4 (q, vals)))) \<and>
         db_calls (snd (query db this q vals 0 None w)) = db_calls w @ replicate 4 (q, vals)"
  using query_all_transient [OF assms, of this] by auto

lemma failing_driver_transient:
  "\<exists>e. error (snd (failing_driver h)) = Some e \<and> is_transient e"
  by (simp add: failing_driver_def is_transient_def indexOf_def)

theorem query_retries_then_last_outcome_witness:
  "fst (query failing_driver (sample_ctx ''j1'' ''t1'' (JObj [])) ''SELECT ?'' [JNum 1] 0 None
          empty_world) =
     Inr \<lparr>error = Some \<lparr>toString = ''Error: PROTOCOL_ENQUEUE_AFTER_FATAL_ERROR'', sql = None\<rparr>,
          results = JNum 4, qfields = JNull\<rparr> \<and>
   length (db_calls (snd (query failing_driver (sample_ctx ''j1'' ''t1'' (JObj [])) ''SELECT ?''
          [JNum 1] 0 None empty_world))) = 4"
  using query_retries_then_last_outcome
    [where db = failing_driver and w = empty_world and q = "''SELECT ?''" and vals = "[JNum 1]"
      and this = "sample_ctx ''j1'' ''t1'' (JObj [])"]
    failing_driver_transient
  by (simp add: failing_driver_def empty_world_def)

lemma failing_driver_results:
  "results (snd (failing_driver h)) = JNum (int (length h))"
  by (simp add: failing_driver_def)

text \<open>The callback does not receive the outcome of the first execution.\<close>

theorem query_first_outcome_counterexample:
  "fst (query failing_driver (sample_ctx ''j1'' ''t1'' (JObj [])) ''SELECT ?'' [JNum 1] 0 None
          empty_world) \<noteq>
     Inr (snd (failing_driver (db_calls empty_world @ [(''SELECT ?'', [JNum 1])])))"
proof
  let ?first = "snd (failing_driver (db_calls empty_world @ [(''SELECT ?'', [JNum 1])]))"
  let ?last = "snd (failing_driver (db_calls empty_world @ replicate 4 (''SELECT ?'', [JNum 1])))"
  assume first: "fst (query failing_driver (sample_ctx ''j1'' ''t1'' (JObj [])) ''SELECT ?''
                   [JNum 1] 0 None empty_world) = Inr ?first"
  have "\<forall>i. 1 \<le> i \<and> i \<le> 4 \<longrightarrow>
          (\<exists>e. error (snd (failing_driver (db_calls empty_world @
                  replicate i (''SELECT ?'', [JNum 1])))) = Some e \<and> is_transient e)"
    using failing_driver_transient by blast
  from query_all_transient [OF this, of "sample_ctx ''j1'' ''t1'' (JObj [])"]
  have "fst (query failing_driver (sample_ctx ''j1'' ''t1'' (JObj [])) ''SELECT ?''
               [JNum 1] 0 None empty_world) = Inr ?last"
    by auto
  with first have "results ?first = results ?last"
    by simp
  then show False
    by (simp add: failing_driver_results empty_world_def)
qed

end
